theory Spec2Isabelle
  imports Complex_Main
begin

section \<open>GlobeMap: highlight store, renderer and navigation\<close>

text \<open>
  A shallow embedding of \<^verbatim>\<open>src/GlobeMap.js\<close>. The class instance is split into an
  immutable part (\<open>env\<close>: the merged settings, the country features of the world atlas and
  the region table, all fixed once the constructor has run) and the mutable part
  (\<open>globe_map\<close>), which every method takes and returns. The record describes a globe on
  which \<^verbatim>\<open>init()\<close> has run, so the canvas context, the projection and the path generator
  exist. JavaScript numbers are modelled as real numbers (finite values, no rounding), and
  strings as lists of 8-bit characters. A lookup \<^verbatim>\<open>table[key]\<close> in an object literal or in
  the region table is a lookup among the table's own keys.
\<close>

subsection \<open>Strings\<close>

text \<open>
  \<^verbatim>\<open>String.prototype.toLowerCase\<close>, on the ASCII letters: \<open>A\<close>..\<open>Z\<close> are mapped to
  \<open>a\<close>..\<open>z\<close>, every other character is kept.
\<close>

definition upper_lower :: "(char \<times> char) list" where
  "upper_lower = zip ''ABCDEFGHIJKLMNOPQRSTUVWXYZ'' ''abcdefghijklmnopqrstuvwxyz''"

definition lower_char :: "char \<Rightarrow> char" where
  "lower_char c = (case map_of upper_lower c of None \<Rightarrow> c | Some d \<Rightarrow> d)"

definition toLowerCase :: "string \<Rightarrow> string" where
  "toLowerCase s = map lower_char s"

subsection \<open>Data\<close>

text \<open>
  A country feature of the atlas: \<^verbatim>\<open>properties.id\<close>, \<^verbatim>\<open>properties.name\<close> and the
  polygon, which is an opaque handle here (only d3 looks inside).
\<close>

record feature =
  properties_id :: string
  properties_name :: string
  geometry :: nat

text \<open>What is handed to the path generator: the sphere, \<^verbatim>\<open>this.landGeoJson\<close>,
  \<^verbatim>\<open>this.bordersGeoJson\<close>, or one country feature.\<close>

datatype geo_object = Sphere | LandGeoJson | BordersGeoJson | Feature feature

text \<open>An element of \<^verbatim>\<open>this.highlightedCountries\<close>: \<^verbatim>\<open>{id, name, color, geojson}\<close>.\<close>

record highlighted =
  id' :: string
  name :: string
  color :: string
  geojson :: feature

text \<open>One block of the settings (\<^verbatim>\<open>land\<close>, \<^verbatim>\<open>borders\<close>, \<^verbatim>\<open>globe\<close>); a
  \<^verbatim>\<open>fillStyle\<close> of \<^verbatim>\<open>null\<close> is \<open>None\<close>.\<close>

record layer_style =
  fillStyle :: "string option"
  strokeStyle :: string
  strokeWidth :: real

record settings =
  highlightColor :: string
  land :: layer_style
  borders :: layer_style
  globe :: layer_style

record env =
  settings :: settings
  countriesGeoJson :: "feature list"
  REGION_COUNTRY_MAP :: "(string \<times> string list) list"

text \<open>The calls that \<^verbatim>\<open>render()\<close> makes on the 2D context and on the path generator.\<close>

datatype context_call =
    ClearRect real real real real
  | BeginPath
  | Path geo_object
  | SetFillStyle "string option"
  | SetStrokeStyle string
  | SetLineWidth real
  | Stroke
  | Fill

record bounding_box =
  width :: real
  height :: real

text \<open>
  A transition handed to d3 by \<^verbatim>\<open>transition().duration(1250).tween(name, factory)\<close>.
  The factory is a closure; the datatype keeps what it captured. \<open>CenterOnCountry\<close> is the
  factory of \<^verbatim>\<open>zoomOnCountry\<close> (country feature, zoom, offsets), \<open>ZoomTo\<close> the one of
  \<^verbatim>\<open>setZoom\<close>, which captured a scale interpolator built from two scales.
\<close>

datatype zoom_value = Auto | Number real | NotANumber

datatype tween_factory =
    CenterOnCountry feature zoom_value real real
  | ZoomTo real real

record transition =
  duration :: nat
  tween_name :: string
  factory :: tween_factory

text \<open>
  The mutable fields of the instance. \<open>frames\<close> is the drawing surface seen as a log:
  every call of \<^verbatim>\<open>render()\<close> appends the list of context calls it made. \<open>console\<close>
  collects the \<^verbatim>\<open>console.log\<close> lines, \<open>transitions\<close> the transitions handed to d3, in
  the order of the calls.
\<close>

record globe_map =
  highlightedCountries :: "highlighted list"
  zoom :: real
  zoomedCountry :: "string option"
  proj_rotate :: "real \<times> real"
  proj_scale :: real
  baseProjectionScale :: real
  holderBoundingBox :: bounding_box
  frames :: "context_call list list"
  console :: "string list"
  transitions :: "transition list"

datatype error = TypeError

subsection \<open>Renderer\<close>

fun drawHighlighted :: "highlighted list \<Rightarrow> context_call list" where
  "drawHighlighted [] = []"
| "drawHighlighted (country # rest) =
     [BeginPath, Path (Feature (geojson country)), SetFillStyle (Some (color country)), Fill]
     @ drawHighlighted rest"

definition render_calls :: "env \<Rightarrow> globe_map \<Rightarrow> context_call list" where
  "render_calls e st =
     [ClearRect 0 0 (width (holderBoundingBox st)) (height (holderBoundingBox st))]
     @ [BeginPath, Path Sphere,
        SetFillStyle (fillStyle (globe (settings e))),
        SetStrokeStyle (strokeStyle (globe (settings e))),
        SetLineWidth (strokeWidth (globe (settings e))),
        Stroke]
     @ (if fillStyle (globe (settings e)) \<noteq> None then [Fill] else [])
     @ [BeginPath, Path LandGeoJson,
        SetFillStyle (fillStyle (land (settings e))),
        SetStrokeStyle (strokeStyle (land (settings e))),
        SetLineWidth (strokeWidth (land (settings e))),
        Fill]
     @ (if strokeWidth (land (settings e)) > 0 then [Stroke] else [])
     @ drawHighlighted (highlightedCountries st)
     @ [BeginPath, Path BordersGeoJson,
        SetStrokeStyle (strokeStyle (borders (settings e))),
        SetLineWidth (strokeWidth (borders (settings e))),
        Stroke]"

definition render :: "env \<Rightarrow> globe_map \<Rightarrow> globe_map" where
  "render e st = st\<lparr>frames := frames st @ [render_calls e st]\<rparr>"

subsection \<open>Highlight store\<close>

text \<open>\<^verbatim>\<open>Array.prototype.find\<close> gives the first match or \<^verbatim>\<open>undefined\<close>, which is \<open>None\<close>.\<close>

definition getCountryGeoJson :: "env \<Rightarrow> string \<Rightarrow> feature option" where
  "getCountryGeoJson e countryName =
     (let countryName = toLowerCase countryName
      in find (\<lambda>country. toLowerCase (properties_name country) = countryName)
           (countriesGeoJson e))"

definition isCountryHighlighted :: "env \<Rightarrow> string \<Rightarrow> globe_map \<Rightarrow> bool" where
  "isCountryHighlighted e countryName st =
     (case getCountryGeoJson e countryName of
        Some countryGeoJson \<Rightarrow>
          (case find (\<lambda>obj. id' obj = properties_id countryGeoJson) (highlightedCountries st) of
             None \<Rightarrow> False
           | Some result \<Rightarrow> True)
      | None \<Rightarrow> True)"

text \<open>
  The test \<^verbatim>\<open>x !== null\<close> on a value that is either \<^verbatim>\<open>undefined\<close> or an object: both are
  different from \<^verbatim>\<open>null\<close>.
\<close>

definition not_null :: "'a option \<Rightarrow> bool" where
  "not_null x = (case x of None \<Rightarrow> True | Some obj \<Rightarrow> True)"

text \<open>\<^verbatim>\<open>color || this.settings.highlightColor\<close>: an absent or empty colour is falsy.\<close>

definition color_or :: "string option \<Rightarrow> string \<Rightarrow> string" where
  "color_or col dflt = (case col of None \<Rightarrow> dflt | Some c \<Rightarrow> if c = [] then dflt else c)"

text \<open>
  \<^verbatim>\<open>highlightCountry(countryName, color, render = true)\<close>. Reading
  \<^verbatim>\<open>countryGeoJson.properties\<close> of \<^verbatim>\<open>undefined\<close> throws a TypeError, which is \<open>Inl\<close>.
\<close>

definition highlightCountry ::
  "env \<Rightarrow> string \<Rightarrow> string option \<Rightarrow> bool \<Rightarrow> globe_map \<Rightarrow> error + globe_map" where
  "highlightCountry e countryName col doRender st =
     (let countryGeoJson = getCountryGeoJson e countryName in
      if not_null countryGeoJson then
        (if isCountryHighlighted e countryName st = False then
           (case countryGeoJson of
              None \<Rightarrow> Inl TypeError
            | Some f \<Rightarrow>
                (let st' = st\<lparr>highlightedCountries := highlightedCountries st @
                             [\<lparr>id' = properties_id f,
                               name = toLowerCase countryName,
                               color = color_or col (highlightColor (settings e)),
                               geojson = f\<rparr>]\<rparr>
                 in Inr (if doRender then render e st' else st')))
         else Inr st)
      else Inr (st\<lparr>console := console st @
                  [''No iso code was found for '' @ countryName @ '' so cannot highlight it.'']\<rparr>))"

text \<open>The loop of \<^verbatim>\<open>unhighlightCountry\<close>: the first entry with the name is spliced out
  and the loop is left; \<open>None\<close> when the loop ends without a match.\<close>

fun spliceFirst :: "string \<Rightarrow> highlighted list \<Rightarrow> highlighted list option" where
  "spliceFirst lname [] = None"
| "spliceFirst lname (highlightedCountry # rest) =
     (if name highlightedCountry = lname then Some rest
      else map_option ((#) highlightedCountry) (spliceFirst lname rest))"

definition unhighlightCountry :: "env \<Rightarrow> string \<Rightarrow> bool \<Rightarrow> globe_map \<Rightarrow> globe_map" where
  "unhighlightCountry e n doRender st =
     (case spliceFirst (toLowerCase n) (highlightedCountries st) of
        None \<Rightarrow> st
      | Some remaining \<Rightarrow>
          (let st' = st\<lparr>highlightedCountries := remaining\<rparr>
           in if doRender then render e st' else st'))"

fun highlightMembers ::
  "env \<Rightarrow> string list \<Rightarrow> string option \<Rightarrow> globe_map \<Rightarrow> error + globe_map" where
  "highlightMembers e [] col st = Inr st"
| "highlightMembers e (country # countries) col st =
     (case highlightCountry e country col False st of
        Inl err \<Rightarrow> Inl err
      | Inr st' \<Rightarrow> highlightMembers e countries col st')"

definition highlightRegion ::
  "env \<Rightarrow> string \<Rightarrow> string option \<Rightarrow> globe_map \<Rightarrow> error + globe_map" where
  "highlightRegion e regionName col st =
     (case map_of (REGION_COUNTRY_MAP e) regionName of
        Some countries \<Rightarrow>
          (case highlightMembers e countries col st of
             Inl err \<Rightarrow> Inl err
           | Inr st' \<Rightarrow> Inr (render e st'))
      | None \<Rightarrow> Inr (st\<lparr>console := console st @
          [''The region of '' @ regionName @ '' was not found in the continent list'']\<rparr>))"

fun unhighlightMembers :: "env \<Rightarrow> string list \<Rightarrow> globe_map \<Rightarrow> globe_map" where
  "unhighlightMembers e [] st = st"
| "unhighlightMembers e (country # countries) st =
     unhighlightMembers e countries (unhighlightCountry e country False st)"

definition unhighlightRegion :: "env \<Rightarrow> string \<Rightarrow> globe_map \<Rightarrow> globe_map" where
  "unhighlightRegion e regionName st =
     (case map_of (REGION_COUNTRY_MAP e) regionName of
        Some countries \<Rightarrow> render e (unhighlightMembers e countries st)
      | None \<Rightarrow> st\<lparr>console := console st @
          [''The region of '' @ regionName @ '' was not found in the continent list'']\<rparr>)"

definition highlight ::
  "env \<Rightarrow> string \<Rightarrow> string option \<Rightarrow> globe_map \<Rightarrow> error + globe_map" where
  "highlight e n col st =
     (if map_of (REGION_COUNTRY_MAP e) n \<noteq> None then highlightRegion e n col st
      else highlightCountry e n col True st)"

definition unhighlight :: "env \<Rightarrow> string \<Rightarrow> globe_map \<Rightarrow> globe_map" where
  "unhighlight e n st =
     (if map_of (REGION_COUNTRY_MAP e) n \<noteq> None then unhighlightRegion e n st
      else unhighlightCountry e n True st)"

subsection \<open>Navigation\<close>

text \<open>
  The d3 functions the navigation code calls. They are library code, so they are
  parameters: the centroid of a feature, the rotation interpolator
  \<^verbatim>\<open>geoInterpolate(a, b)(t)\<close>, the number interpolator \<^verbatim>\<open>interpolate(a, b)(t)\<close>, and
  the scale of \<^verbatim>\<open>geoOrthographic().fitExtent([[0, 0], [width, height]], object)\<close>.
\<close>

record d3 =
  geoCentroid :: "feature \<Rightarrow> real \<times> real"
  geoInterpolate :: "real \<times> real \<Rightarrow> real \<times> real \<Rightarrow> real \<Rightarrow> real \<times> real"
  interpolate :: "real \<Rightarrow> real \<Rightarrow> real \<Rightarrow> real"
  fitExtentScale :: "bounding_box \<Rightarrow> geo_object \<Rightarrow> real"

definition predefinedFillZoomLevels :: "(string \<times> real) list" where
  "predefinedFillZoomLevels =
     [(''australia'', 2.5), (''germany'', 14), (''ireland'', 20),
      (''mexico'', 3.8), (''sweden'', 8), (''united states'', 2)]"

text \<open>
  \<^verbatim>\<open>calculateZoomLevelForFullscreenCountry\<close>. The table entry is used when it is truthy
  (a number other than 0). The quotient by \<^verbatim>\<open>this.baseProjectionScale\<close> is a real
  quotient, so the model says what the code does only where that scale is not 0.
\<close>

definition calculateZoomLevelForFullscreenCountry ::
  "d3 \<Rightarrow> string \<Rightarrow> feature \<Rightarrow> globe_map \<Rightarrow> real" where
  "calculateZoomLevelForFullscreenCountry lib countryName countryGeoJson st =
     (let fitted =
        (let tempProjectionScale = fitExtentScale lib (holderBoundingBox st) (Feature countryGeoJson);
             correctionFactor = 0.65
         in (tempProjectionScale / baseProjectionScale st) * correctionFactor);
          zoomlevel =
        (case map_of predefinedFillZoomLevels countryName of
           Some level \<Rightarrow> if level \<noteq> 0 then level else fitted
         | None \<Rightarrow> fitted)
      in if zoomlevel < 1 then 1 else zoomlevel)"

text \<open>
  \<^verbatim>\<open>zoomOnCountry(countryName, zoom = 'auto', offsetX = 0, offsetY = 0)\<close>; the caller of the
  model passes the defaults itself. The method only hands a transition to d3; what the
  tween does is \<open>tween_start\<close> and \<open>tick\<close> below.
\<close>

definition zoomOnCountry ::
  "d3 \<Rightarrow> env \<Rightarrow> string \<Rightarrow> zoom_value \<Rightarrow> real \<Rightarrow> real \<Rightarrow> globe_map \<Rightarrow> globe_map" where
  "zoomOnCountry lib e countryName z offsetX offsetY st =
     (case getCountryGeoJson e countryName of
        Some countryGeoJson \<Rightarrow>
          (let st1 = st\<lparr>zoomedCountry := Some countryName\<rparr>;
               z1 = (if z = Auto
                     then Number (calculateZoomLevelForFullscreenCountry lib countryName
                                    countryGeoJson st1)
                     else z)
           in st1\<lparr>transitions := transitions st1 @
                  [\<lparr>duration = 1250, tween_name = ''centerOnCountry'',
                    factory = CenterOnCountry countryGeoJson z1 offsetX offsetY\<rparr>]\<rparr>)
      | None \<Rightarrow> st\<lparr>console := console st @
          [''No iso code was found for '' @ countryName @ '' so cannot zoom on it.'']\<rparr>)"

definition setZoom :: "zoom_value \<Rightarrow> globe_map \<Rightarrow> globe_map" where
  "setZoom z st =
     (case z of
        Number zn \<Rightarrow>
          (if zn \<noteq> zoom st then
             (let newScale = baseProjectionScale st * zn;
                  st1 = st\<lparr>zoom := zn\<rparr>
              in st1\<lparr>transitions := transitions st1 @
                     [\<lparr>duration = 1250, tween_name = ''zoom'',
                       factory = ZoomTo (proj_scale st) newScale\<rparr>]\<rparr>)
           else st)
      | Auto \<Rightarrow> st
      | NotANumber \<Rightarrow> st)"

definition resetZoom :: "globe_map \<Rightarrow> globe_map" where
  "resetZoom st = setZoom (Number 1) st"

text \<open>
  The function a tween factory returns, called by d3 with the progress \<open>t\<close>: the two
  ends of the rotation interpolator and, when a scale is animated, the two ends of the
  scale interpolator.
\<close>

datatype tick_function =
    CenterTick "real \<times> real" "real \<times> real" "(real \<times> real) option"
  | ZoomTick real real

text \<open>d3 calls the factory once, when the transition starts, in the state of that moment.\<close>

fun tween_start :: "d3 \<Rightarrow> tween_factory \<Rightarrow> globe_map \<Rightarrow> globe_map \<times> tick_function" where
  "tween_start lib (CenterOnCountry countryGeoJson z offsetX offsetY) st =
     (let (x, y) = geoCentroid lib countryGeoJson;
          target = (- x - offsetX, - y - offsetY)
      in case z of
           Number zn \<Rightarrow>
             (let newScale = baseProjectionScale st * zn
              in (st\<lparr>zoom := zn\<rparr>,
                  CenterTick (proj_rotate st) target (Some (proj_scale st, newScale))))
         | Auto \<Rightarrow> (st, CenterTick (proj_rotate st) target None)
         | NotANumber \<Rightarrow> (st, CenterTick (proj_rotate st) target None))"
| "tween_start lib (ZoomTo a b) st = (st, ZoomTick a b)"

fun tick :: "d3 \<Rightarrow> env \<Rightarrow> tick_function \<Rightarrow> real \<Rightarrow> globe_map \<Rightarrow> globe_map" where
  "tick lib e (CenterTick a b interpolationScale) t st =
     (let st1 = st\<lparr>proj_rotate := geoInterpolate lib a b t\<rparr>;
          st2 = (case interpolationScale of
                   Some (s0, s1) \<Rightarrow> st1\<lparr>proj_scale := interpolate lib s0 s1 t\<rparr>
                 | None \<Rightarrow> st1)
      in render e st2)"
| "tick lib e (ZoomTick s0 s1) t st =
     render e (st\<lparr>proj_scale := interpolate lib s0 s1 t\<rparr>)"

subsection \<open>What a frame paints\<close>

text \<open>
  The 2D context as a small machine: a current path and the styles most recently
  assigned. \<open>passes\<close> runs the calls of one frame and lists, in order, what was
  cleared, stroked and filled, each with the path and the styles in force at that call.
\<close>

record context_state =
  currentPath :: "geo_object list"
  ctx_fillStyle :: "string option"
  ctx_strokeStyle :: string
  ctx_lineWidth :: real

datatype paint =
    Cleared
  | Stroked "geo_object list" string real
  | Filled "geo_object list" "string option"

fun context_step ::
  "context_call \<Rightarrow> context_state \<times> paint list \<Rightarrow> context_state \<times> paint list" where
  "context_step (ClearRect x y w h) (ctx, done) = (ctx, done @ [Cleared])"
| "context_step BeginPath (ctx, done) = (ctx\<lparr>currentPath := []\<rparr>, done)"
| "context_step (Path obj) (ctx, done) = (ctx\<lparr>currentPath := currentPath ctx @ [obj]\<rparr>, done)"
| "context_step (SetFillStyle s) (ctx, done) = (ctx\<lparr>ctx_fillStyle := s\<rparr>, done)"
| "context_step (SetStrokeStyle s) (ctx, done) = (ctx\<lparr>ctx_strokeStyle := s\<rparr>, done)"
| "context_step (SetLineWidth w) (ctx, done) = (ctx\<lparr>ctx_lineWidth := w\<rparr>, done)"
| "context_step Stroke (ctx, done) =
     (ctx, done @ [Stroked (currentPath ctx) (ctx_strokeStyle ctx) (ctx_lineWidth ctx)])"
| "context_step Fill (ctx, done) = (ctx, done @ [Filled (currentPath ctx) (ctx_fillStyle ctx)])"

fun context_run ::
  "context_call list \<Rightarrow> context_state \<times> paint list \<Rightarrow> context_state \<times> paint list" where
  "context_run [] s = s"
| "context_run (c # cs) s = context_run cs (context_step c s)"

definition passes :: "context_state \<Rightarrow> context_call list \<Rightarrow> paint list" where
  "passes ctx calls = snd (context_run calls (ctx, []))"

subsection \<open>Well-formed datasets and reachable states\<close>

text \<open>
  Modelled from the spec: the atlas file \<^verbatim>\<open>world2-topo.json\<close> is not part of the sources.
  The spec's data model makes the id of a country its identity ("identity (stable id from
  dataset)"): two features with the same id are the same country, so they carry the same
  name up to letter case.
\<close>

definition ids_identify :: "env \<Rightarrow> bool" where
  "ids_identify e =
     (\<forall>c \<in> set (countriesGeoJson e). \<forall>d \<in> set (countriesGeoJson e).
        properties_id c = properties_id d \<longrightarrow>
        toLowerCase (properties_name c) = toLowerCase (properties_name d))"

text \<open>
  The invariant of \<^verbatim>\<open>this.highlightedCountries\<close>: no id twice, every name in lower case,
  and every entry carries the id of the country its name resolves to.
\<close>

definition entries_sound :: "env \<Rightarrow> highlighted list \<Rightarrow> bool" where
  "entries_sound e hl =
     (distinct (map id' hl) \<and>
      (\<forall>h \<in> set hl. toLowerCase (name h) = name h \<and>
         (\<exists>f. getCountryGeoJson e (name h) = Some f \<and> id' h = properties_id f)))"

text \<open>
  The states a globe can be in: it starts with no highlight, and every public method
  that touches the highlight list is a step. All other methods (rendering, zooming,
  resizing, the ticks of a tween) leave the list as it is; rule \<open>other\<close> covers them.
\<close>

inductive reachable :: "env \<Rightarrow> globe_map \<Rightarrow> bool" for e :: env where
  initial: "highlightedCountries st = [] \<Longrightarrow> reachable e st"
| highlightCountry:
    "reachable e st \<Longrightarrow> highlightCountry e n col doRender st = Inr st' \<Longrightarrow> reachable e st'"
| unhighlightCountry: "reachable e st \<Longrightarrow> reachable e (unhighlightCountry e n doRender st)"
| highlightRegion:
    "reachable e st \<Longrightarrow> highlightRegion e n col st = Inr st' \<Longrightarrow> reachable e st'"
| unhighlightRegion: "reachable e st \<Longrightarrow> reachable e (unhighlightRegion e n st)"
| highlight: "reachable e st \<Longrightarrow> highlight e n col st = Inr st' \<Longrightarrow> reachable e st'"
| unhighlight: "reachable e st \<Longrightarrow> reachable e (unhighlight e n st)"
| other:
    "reachable e st \<Longrightarrow> highlightedCountries st' = highlightedCountries st \<Longrightarrow> reachable e st'"

text \<open>
  The comparison side of the region claim, in the spec's words: "calling
  \<^verbatim>\<open>highlightCountry\<close> once for every member", each call with its default
  \<^verbatim>\<open>render = true\<close>.
\<close>

fun highlightCountry_each ::
  "env \<Rightarrow> string list \<Rightarrow> string option \<Rightarrow> globe_map \<Rightarrow> error + globe_map" where
  "highlightCountry_each e [] col st = Inr st"
| "highlightCountry_each e (country # countries) col st =
     (case highlightCountry e country col True st of
        Inl err \<Rightarrow> Inl err
      | Inr st' \<Rightarrow> highlightCountry_each e countries col st')"

subsection \<open>Example data\<close>

text \<open>The default settings are those of the constructor; the rest is a small atlas, a
  region and a globe right after \<^verbatim>\<open>init()\<close>, used to run the model.\<close>

definition defaultSettings :: settings where
  "defaultSettings =
     \<lparr>highlightColor = ''#F90'',
      land = \<lparr>fillStyle = Some ''#CCC'', strokeStyle = ''#000'', strokeWidth = 0\<rparr>,
      borders = \<lparr>fillStyle = None, strokeStyle = ''#FFF'', strokeWidth = 1\<rparr>,
      globe = \<lparr>fillStyle = None, strokeStyle = ''#CCC'', strokeWidth = 1.5\<rparr>\<rparr>"

definition germany :: feature where
  "germany = \<lparr>properties_id = ''DEU'', properties_name = ''Germany'', geometry = 1\<rparr>"

definition france :: feature where
  "france = \<lparr>properties_id = ''FRA'', properties_name = ''France'', geometry = 2\<rparr>"

definition example_env :: env where
  "example_env =
     \<lparr>settings = defaultSettings,
      countriesGeoJson = [germany, france],
      REGION_COUNTRY_MAP = [(''western europe'', [''germany'', ''france''])]\<rparr>"

definition example_globe :: globe_map where
  "example_globe =
     \<lparr>highlightedCountries = [], zoom = 1, zoomedCountry = None,
      proj_rotate = (0, 0), proj_scale = 250, baseProjectionScale = 250,
      holderBoundingBox = \<lparr>width = 500, height = 500\<rparr>,
      frames = [], console = [], transitions = []\<rparr>"

definition example_d3 :: d3 where
  "example_d3 =
     \<lparr>geoCentroid = (\<lambda>f. if properties_id f = ''DEU'' then (10, 51) else (2, 46)),
      geoInterpolate = (\<lambda>a b t. (fst a * (1 - t) + fst b * t, snd a * (1 - t) + snd b * t)),
      interpolate = (\<lambda>a b t. a * (1 - t) + b * t),
      fitExtentScale = (\<lambda>box obj. 2000)\<rparr>"

definition example_context :: context_state where
  "example_context =
     \<lparr>currentPath = [], ctx_fillStyle = Some ''#000000'', ctx_strokeStyle = ''#000000'',
      ctx_lineWidth = 1\<rparr>"








section \<open>Properties\<close>

lemmas example_defs =
  example_env_def example_globe_def germany_def france_def defaultSettings_def
  example_d3_def example_context_def

lemmas lower_defs = toLowerCase_def lower_char_def upper_lower_def

subsection \<open>Lower case\<close>

lemma lower_fixed: "\<forall>d \<in> set ''abcdefghijklmnopqrstuvwxyz''. map_of upper_lower d = None"
  unfolding upper_lower_def by simp

lemma lower_char_idem: "lower_char (lower_char c) = lower_char c"
proof (cases "map_of upper_lower c")
  case None
  then show ?thesis by (simp add: lower_char_def)
next
  case (Some d)
  then have "(c, d) \<in> set upper_lower" by (rule map_of_SomeD)
  then have "d \<in> set ''abcdefghijklmnopqrstuvwxyz''"
    unfolding upper_lower_def by (rule set_zip_rightD)
  with lower_fixed have "map_of upper_lower d = None"
    by blast
  with Some show ?thesis by (simp add: lower_char_def)
qed

lemma toLowerCase_idem: "toLowerCase (toLowerCase s) = toLowerCase s"
  by (simp add: toLowerCase_def lower_char_idem)

subsection \<open>Lookup and the highlight list\<close>

lemma getCountryGeoJson_cong:
  "toLowerCase n1 = toLowerCase n2 \<Longrightarrow> getCountryGeoJson e n1 = getCountryGeoJson e n2"
  by (simp add: getCountryGeoJson_def)

lemma getCountryGeoJson_lower: "getCountryGeoJson e (toLowerCase n) = getCountryGeoJson e n"
  by (rule getCountryGeoJson_cong) (rule toLowerCase_idem)

lemma getCountryGeoJson_SomeD:
  assumes "getCountryGeoJson e n = Some f"
  shows "f \<in> set (countriesGeoJson e)" and "toLowerCase (properties_name f) = toLowerCase n"
  using assms by (auto simp: getCountryGeoJson_def find_Some_iff)

lemma getCountryGeoJson_None_iff:
  "getCountryGeoJson e n = None \<longleftrightarrow>
     (\<forall>c \<in> set (countriesGeoJson e). toLowerCase (properties_name c) \<noteq> toLowerCase n)"
  by (auto simp: getCountryGeoJson_def find_None_iff)

lemma isCountryHighlighted_Some:
  assumes "getCountryGeoJson e n = Some f"
  shows "isCountryHighlighted e n st \<longleftrightarrow> properties_id f \<in> id' ` set (highlightedCountries st)"
proof -
  have "isCountryHighlighted e n st \<longleftrightarrow>
      find (\<lambda>obj. id' obj = properties_id f) (highlightedCountries st) \<noteq> None"
    using assms by (simp add: isCountryHighlighted_def split: option.splits)
  also have "\<dots> \<longleftrightarrow> properties_id f \<in> id' ` set (highlightedCountries st)"
    unfolding find_None_iff by (auto intro: rev_image_eqI)
  finally show ?thesis .
qed

lemma isCountryHighlighted_None: "getCountryGeoJson e n = None \<Longrightarrow> isCountryHighlighted e n st"
  by (simp add: isCountryHighlighted_def)

lemma highlightedCountries_render [simp]:
  "highlightedCountries (render e st) = highlightedCountries st"
  by (simp add: render_def)

lemma highlightCountry_None:
  "getCountryGeoJson e n = None \<Longrightarrow> highlightCountry e n col doRender st = Inr st"
  by (simp add: highlightCountry_def not_null_def isCountryHighlighted_None)

lemma highlightCountry_Some:
  assumes "getCountryGeoJson e n = Some f"
  shows "\<exists>st'. highlightCountry e n col doRender st = Inr st' \<and>
     highlightedCountries st' =
       (if properties_id f \<in> id' ` set (highlightedCountries st) then highlightedCountries st
        else highlightedCountries st @
          [\<lparr>id' = properties_id f, name = toLowerCase n,
            color = color_or col (highlightColor (settings e)), geojson = f\<rparr>])"
  using assms
  by (simp add: highlightCountry_def not_null_def isCountryHighlighted_Some Let_def)

lemma highlightCountry_total: "\<exists>st'. highlightCountry e n col doRender st = Inr st'"
  using highlightCountry_None highlightCountry_Some by (cases "getCountryGeoJson e n") blast+

lemma highlightCountry_sound:
  assumes "entries_sound e (highlightedCountries st)"
    and "highlightCountry e n col doRender st = Inr st'"
  shows "entries_sound e (highlightedCountries st')"
proof (cases "getCountryGeoJson e n")
  case None
  with assms show ?thesis by (simp add: highlightCountry_None)
next
  case (Some f)
  from highlightCountry_Some [OF Some, of col doRender st] assms(2)
  have hl: "highlightedCountries st' =
       (if properties_id f \<in> id' ` set (highlightedCountries st) then highlightedCountries st
        else highlightedCountries st @
          [\<lparr>id' = properties_id f, name = toLowerCase n,
            color = color_or col (highlightColor (settings e)), geojson = f\<rparr>])"
    by auto
  show ?thesis
  proof (cases "properties_id f \<in> id' ` set (highlightedCountries st)")
    case True
    with hl assms(1) show ?thesis by simp
  next
    case False
    with hl assms(1) Some show ?thesis
      by (auto simp: entries_sound_def toLowerCase_idem getCountryGeoJson_lower)
  qed
qed

lemma spliceFirst_SomeD:
  "spliceFirst lname hl = Some hl' \<Longrightarrow>
     \<exists>before h after. hl = before @ h # after \<and> name h = lname \<and> hl' = before @ after \<and>
        (\<forall>x \<in> set before. name x \<noteq> lname)"
proof (induction hl arbitrary: hl')
  case Nil
  then show ?case by simp
next
  case (Cons a hl)
  show ?case
  proof (cases "name a = lname")
    case True
    with Cons.prems have "hl' = hl" by simp
    with True show ?thesis by (intro exI [of _ "[]"] exI [of _ a] exI [of _ hl]) simp
  next
    case False
    with Cons.prems obtain r where r: "spliceFirst lname hl = Some r" "hl' = a # r"
      by auto
    from Cons.IH [OF r(1)] obtain before h after where
      "hl = before @ h # after" "name h = lname" "r = before @ after" "\<forall>x \<in> set before. name x \<noteq> lname"
      by blast
    with False r(2) show ?thesis
      by (intro exI [of _ "a # before"] exI [of _ h] exI [of _ after]) simp
  qed
qed

lemma spliceFirst_None_iff: "spliceFirst lname hl = None \<longleftrightarrow> (\<forall>h \<in> set hl. name h \<noteq> lname)"
  by (induction hl) auto

lemma entries_sound_remove:
  "entries_sound e (before @ h # after) \<Longrightarrow> entries_sound e (before @ after)"
  by (auto simp: entries_sound_def)

lemma unhighlightCountry_sound:
  assumes "entries_sound e (highlightedCountries st)"
  shows "entries_sound e (highlightedCountries (unhighlightCountry e n doRender st))"
proof (cases "spliceFirst (toLowerCase n) (highlightedCountries st)")
  case None
  with assms show ?thesis by (simp add: unhighlightCountry_def)
next
  case (Some remaining)
  from spliceFirst_SomeD [OF Some] obtain before h after where
    d: "highlightedCountries st = before @ h # after" "remaining = before @ after"
    by blast
  from assms have "entries_sound e (before @ h # after)"
    by (simp only: d(1))
  then have "entries_sound e remaining"
    unfolding d(2) by (rule entries_sound_remove)
  with Some show ?thesis by (simp add: unhighlightCountry_def Let_def)
qed

lemma highlightMembers_sound:
  "entries_sound e (highlightedCountries st) \<Longrightarrow> highlightMembers e cs col st = Inr st' \<Longrightarrow>
     entries_sound e (highlightedCountries st')"
proof (induction cs arbitrary: st)
  case Nil
  then show ?case by simp
next
  case (Cons c cs)
  from Cons.prems(2) obtain st1 where
    s: "highlightCountry e c col False st = Inr st1" "highlightMembers e cs col st1 = Inr st'"
    by (auto split: sum.splits)
  from highlightCountry_sound [OF Cons.prems(1) s(1)] s(2) show ?case
    by (rule Cons.IH)
qed

lemma unhighlightMembers_sound:
  "entries_sound e (highlightedCountries st) \<Longrightarrow>
     entries_sound e (highlightedCountries (unhighlightMembers e cs st))"
  by (induction cs arbitrary: st) (simp_all add: unhighlightCountry_sound)

lemma highlightRegion_sound:
  assumes "entries_sound e (highlightedCountries st)" and "highlightRegion e n col st = Inr st'"
  shows "entries_sound e (highlightedCountries st')"
proof (cases "map_of (REGION_COUNTRY_MAP e) n")
  case None
  with assms show ?thesis by (auto simp: highlightRegion_def)
next
  case (Some countries)
  with assms(2) obtain st1 where
    s: "highlightMembers e countries col st = Inr st1" "st' = render e st1"
    by (auto simp: highlightRegion_def split: sum.splits)
  from highlightMembers_sound [OF assms(1) s(1)] show ?thesis
    by (simp add: s(2))
qed

lemma unhighlightRegion_sound:
  assumes "entries_sound e (highlightedCountries st)"
  shows "entries_sound e (highlightedCountries (unhighlightRegion e n st))"
proof (cases "map_of (REGION_COUNTRY_MAP e) n")
  case None
  with assms show ?thesis by (simp add: unhighlightRegion_def)
next
  case (Some countries)
  with unhighlightMembers_sound [OF assms, of countries] show ?thesis
    by (simp add: unhighlightRegion_def)
qed

lemma reachable_sound: "reachable e st \<Longrightarrow> entries_sound e (highlightedCountries st)"
proof (induction rule: reachable.induct)
  case (initial st)
  then show ?case by (simp add: entries_sound_def)
next
  case (highlightCountry st n col doRender st')
  from highlightCountry.IH highlightCountry.hyps(2) show ?case
    by (rule highlightCountry_sound)
next
  case (unhighlightCountry st n doRender)
  from unhighlightCountry.IH show ?case by (rule unhighlightCountry_sound)
next
  case (highlightRegion st n col st')
  from highlightRegion.IH highlightRegion.hyps(2) show ?case
    by (rule highlightRegion_sound)
next
  case (unhighlightRegion st n)
  from unhighlightRegion.IH show ?case by (rule unhighlightRegion_sound)
next
  case (highlight st n col st')
  show ?case
  proof (cases "map_of (REGION_COUNTRY_MAP e) n")
    case None
    with highlight.hyps(2) have "highlightCountry e n col True st = Inr st'"
      by (simp add: highlight_def)
    with highlight.IH show ?thesis by (rule highlightCountry_sound)
  next
    case (Some countries)
    with highlight.hyps(2) have "highlightRegion e n col st = Inr st'"
      by (simp add: highlight_def)
    with highlight.IH show ?thesis by (rule highlightRegion_sound)
  qed
next
  case (unhighlight st n)
  show ?case
  proof (cases "map_of (REGION_COUNTRY_MAP e) n")
    case None
    with unhighlightCountry_sound [OF unhighlight.IH, of n True] show ?thesis
      by (simp add: unhighlight_def)
  next
    case (Some countries)
    with unhighlightRegion_sound [OF unhighlight.IH, of n] show ?thesis
      by (simp add: unhighlight_def)
  qed
next
  case (other st st')
  then show ?case by simp
qed

lemma highlightedCountries_unhighlightCountry:
  "highlightedCountries (unhighlightCountry e n doRender st) =
     (case spliceFirst (toLowerCase n) (highlightedCountries st) of
        None \<Rightarrow> highlightedCountries st | Some remaining \<Rightarrow> remaining)"
  by (simp add: unhighlightCountry_def Let_def split: option.splits)


text \<open>
  Claim C1. In a dataset whose ids identify countries, and in any state the globe can
  reach: for a country of the dataset, \<^verbatim>\<open>highlightCountry\<close> with its name returns
  normally, \<^verbatim>\<open>isCountryHighlighted\<close> is then true, and after \<^verbatim>\<open>unhighlightCountry\<close> it
  is false. The four calls may each spell the name in their own letter case, with any
  colour and any render flag.
\<close>

theorem highlight_then_unhighlight:
  assumes wf: "ids_identify e" and r: "reachable e st"
    and c: "c \<in> set (countriesGeoJson e)"
    and n1: "toLowerCase n1 = toLowerCase (properties_name c)"
    and n2: "toLowerCase n2 = toLowerCase (properties_name c)"
    and n3: "toLowerCase n3 = toLowerCase (properties_name c)"
    and n4: "toLowerCase n4 = toLowerCase (properties_name c)"
  shows "\<exists>st1. highlightCountry e n1 col r1 st = Inr st1 \<and>
           isCountryHighlighted e n2 st1 \<and>
           \<not> isCountryHighlighted e n4 (unhighlightCountry e n3 r2 st1)"
proof -
  from c have "getCountryGeoJson e (properties_name c) \<noteq> None"
    unfolding getCountryGeoJson_None_iff by blast
  then obtain f where "getCountryGeoJson e (properties_name c) = Some f"
    by blast
  with n1 n2 n3 n4 have f: "getCountryGeoJson e n1 = Some f" "getCountryGeoJson e n2 = Some f"
    "getCountryGeoJson e n3 = Some f" "getCountryGeoJson e n4 = Some f"
    using getCountryGeoJson_cong by metis+
  from highlightCountry_Some [OF f(1), of col r1 st] obtain st1 where
    h: "highlightCountry e n1 col r1 st = Inr st1"
    and hl1: "highlightedCountries st1 =
       (if properties_id f \<in> id' ` set (highlightedCountries st) then highlightedCountries st
        else highlightedCountries st @
          [\<lparr>id' = properties_id f, name = toLowerCase n1,
            color = color_or col (highlightColor (settings e)), geojson = f\<rparr>])"
    by blast
  from hl1 have mem: "properties_id f \<in> id' ` set (highlightedCountries st1)"
    by (cases "properties_id f \<in> id' ` set (highlightedCountries st)") simp_all
  then have after_highlight: "isCountryHighlighted e n2 st1"
    by (simp add: isCountryHighlighted_Some [OF f(2)])
  from reachable_sound [OF r] h have sound: "entries_sound e (highlightedCountries st1)"
    by (rule highlightCountry_sound)
  from mem obtain h1 where h1: "h1 \<in> set (highlightedCountries st1)" "id' h1 = properties_id f"
    by auto
  from sound h1(1) obtain g where g: "toLowerCase (name h1) = name h1"
    "getCountryGeoJson e (name h1) = Some g" "id' h1 = properties_id g"
    unfolding entries_sound_def by blast
  from getCountryGeoJson_SomeD [OF g(2)] getCountryGeoJson_SomeD [OF f(3)] wf g(3) h1(2)
  have "toLowerCase (properties_name g) = toLowerCase (properties_name f)"
    unfolding ids_identify_def by metis
  with getCountryGeoJson_SomeD(2) [OF g(2)] getCountryGeoJson_SomeD(2) [OF f(3)] g(1)
  have "name h1 = toLowerCase n3"
    by simp
  with h1(1) have "spliceFirst (toLowerCase n3) (highlightedCountries st1) \<noteq> None"
    unfolding spliceFirst_None_iff by blast
  then obtain remaining where rem: "spliceFirst (toLowerCase n3) (highlightedCountries st1) = Some remaining"
    by blast
  from spliceFirst_SomeD [OF rem] obtain before h2 after where
    d: "highlightedCountries st1 = before @ h2 # after" "name h2 = toLowerCase n3"
       "remaining = before @ after"
    by blast
  from sound d(1) obtain g2 where g2: "getCountryGeoJson e (name h2) = Some g2"
    "id' h2 = properties_id g2"
    unfolding entries_sound_def by auto
  from g2(1) d(2) f(3) have "g2 = f"
    by (simp add: getCountryGeoJson_lower)
  with g2(2) have "id' h2 = properties_id f" by simp
  moreover from sound d(1) have "distinct (map id' (before @ h2 # after))"
    unfolding entries_sound_def by simp
  ultimately have "properties_id f \<notin> id' ` set remaining"
    unfolding d(3) by auto
  moreover have "highlightedCountries (unhighlightCountry e n3 r2 st1) = remaining"
    by (simp add: highlightedCountries_unhighlightCountry rem)
  ultimately have "\<not> isCountryHighlighted e n4 (unhighlightCountry e n3 r2 st1)"
    by (simp add: isCountryHighlighted_Some [OF f(4)])
  with h after_highlight show ?thesis by blast
qed

theorem highlight_then_unhighlight_witness:
  "ids_identify example_env \<and> reachable example_env example_globe \<and>
   germany \<in> set (countriesGeoJson example_env) \<and>
   toLowerCase ''Germany'' = toLowerCase (properties_name germany) \<and>
   toLowerCase ''germany'' = toLowerCase (properties_name germany) \<and>
   toLowerCase ''GERMANY'' = toLowerCase (properties_name germany) \<and>
   toLowerCase ''gErMaNy'' = toLowerCase (properties_name germany) \<and>
   (\<exists>st1. highlightCountry example_env ''Germany'' None True example_globe = Inr st1 \<and>
      isCountryHighlighted example_env ''germany'' st1 \<and>
      \<not> isCountryHighlighted example_env ''gErMaNy''
          (unhighlightCountry example_env ''GERMANY'' True st1))"
proof -
  have wf: "ids_identify example_env"
    by (simp add: ids_identify_def example_defs)
  have r: "reachable example_env example_globe"
    by (rule reachable.initial) (simp add: example_globe_def)
  have c: "germany \<in> set (countriesGeoJson example_env)"
    by (simp add: example_env_def)
  have n1: "toLowerCase ''Germany'' = toLowerCase (properties_name germany)"
    by (simp add: germany_def lower_defs)
  have n2: "toLowerCase ''germany'' = toLowerCase (properties_name germany)"
    by (simp add: germany_def lower_defs)
  have n3: "toLowerCase ''GERMANY'' = toLowerCase (properties_name germany)"
    by (simp add: germany_def lower_defs)
  have n4: "toLowerCase ''gErMaNy'' = toLowerCase (properties_name germany)"
    by (simp add: germany_def lower_defs)
  from highlight_then_unhighlight [OF wf r c n1 n2 n3 n4, of None True True]
  show ?thesis
    using wf r c n1 n2 n3 n4 by blast
qed

text \<open>
  Claim C2. \<^verbatim>\<open>isCountryHighlighted\<close> should be true exactly when the list holds an entry
  with the id of the country the name resolves to, and false for a name that resolves to
  no country. The code, run on the example atlas: the name \<open>atlantis\<close> resolves to no
  country, the highlight list is empty, and \<^verbatim>\<open>isCountryHighlighted\<close> returns true.
  (For a name that resolves, \<open>isCountryHighlighted_Some\<close> above is the claimed
  equivalence.)
\<close>

theorem isCountryHighlighted_unknown_name:
  "getCountryGeoJson example_env ''atlantis'' = None \<and>
   highlightedCountries example_globe = [] \<and>
   isCountryHighlighted example_env ''atlantis'' example_globe = True"
  by (simp add: isCountryHighlighted_def getCountryGeoJson_def example_defs lower_defs)

text \<open>
  Claim C3. \<^verbatim>\<open>highlightCountry\<close> with a name that resolves to no country should log the
  unknown name and do nothing else. The code, run on the example atlas with the name
  \<open>atlantis\<close>: the call returns normally and the state is the one before the call, so
  nothing is highlighted and nothing is rendered, but the console has no line either. The
  test \<^verbatim>\<open>countryGeoJson !== null\<close> is true for \<^verbatim>\<open>undefined\<close>, so the branch that logs
  is never taken.
\<close>

theorem highlightCountry_unknown_name_silent:
  "getCountryGeoJson example_env ''atlantis'' = None \<and>
   console example_globe = [] \<and>
   highlightCountry example_env ''atlantis'' (Some ''#F00'') True example_globe = Inr example_globe"
  by (simp add: highlightCountry_def not_null_def isCountryHighlighted_def getCountryGeoJson_def
      example_defs lower_defs)

subsection \<open>Regions\<close>

lemma highlightCountry_no_render:
  "highlightCountry e n col False st = Inr st' \<Longrightarrow> frames st' = frames st"
  by (auto simp: highlightCountry_def Let_def split: if_splits option.splits)

lemma highlightCountry_same_list:
  assumes "highlightedCountries a = highlightedCountries b"
  shows "\<exists>a' b'. highlightCountry e n col ra a = Inr a' \<and> highlightCountry e n col rb b = Inr b' \<and>
           highlightedCountries a' = highlightedCountries b'"
proof (cases "getCountryGeoJson e n")
  case None
  with assms show ?thesis by (simp add: highlightCountry_None)
next
  case (Some f)
  from highlightCountry_Some [OF Some, of col ra a] highlightCountry_Some [OF Some, of col rb b] assms
  show ?thesis by auto
qed

lemma highlightMembers_simulates:
  "highlightedCountries a = highlightedCountries b \<Longrightarrow>
     \<exists>a' b'. highlightMembers e members col a = Inr a' \<and>
             highlightCountry_each e members col b = Inr b' \<and>
             highlightedCountries a' = highlightedCountries b' \<and> frames a' = frames a"
proof (induction members arbitrary: a b)
  case Nil
  then show ?case by simp
next
  case (Cons m members)
  from highlightCountry_same_list [OF Cons.prems, of e m col False True] obtain a1 b1 where
    s: "highlightCountry e m col False a = Inr a1" "highlightCountry e m col True b = Inr b1"
       "highlightedCountries a1 = highlightedCountries b1"
    by blast
  from Cons.IH [OF s(3)] obtain a' b' where
    t: "highlightMembers e members col a1 = Inr a'" "highlightCountry_each e members col b1 = Inr b'"
       "highlightedCountries a' = highlightedCountries b'" "frames a' = frames a1"
    by blast
  from highlightCountry_no_render [OF s(1)] t(4) have "frames a' = frames a" by simp
  with s t show ?case by simp
qed

text \<open>
  Claim C6. For a region of the region table, \<^verbatim>\<open>highlightRegion\<close> returns normally and
  leaves the same highlight list as calling \<^verbatim>\<open>highlightCountry\<close> once for every member
  of the region, and it adds exactly one frame: it renders once.
\<close>

theorem highlightRegion_as_countries:
  assumes "map_of (REGION_COUNTRY_MAP e) regionName = Some members"
  shows "\<exists>st1 st2. highlightRegion e regionName col st = Inr st1 \<and>
           highlightCountry_each e members col st = Inr st2 \<and>
           highlightedCountries st1 = highlightedCountries st2 \<and>
           length (frames st1) = Suc (length (frames st))"
proof -
  from highlightMembers_simulates [of st st e members col] obtain a' b' where
    s: "highlightMembers e members col st = Inr a'" "highlightCountry_each e members col st = Inr b'"
       "highlightedCountries a' = highlightedCountries b'" "frames a' = frames st"
    by blast
  with assms have "highlightRegion e regionName col st = Inr (render e a')"
    by (simp add: highlightRegion_def)
  moreover have "highlightedCountries (render e a') = highlightedCountries b'"
    using s(3) by simp
  moreover have "length (frames (render e a')) = Suc (length (frames st))"
    using s(4) by (simp add: render_def)
  ultimately show ?thesis using s(2) by blast
qed

theorem highlightRegion_as_countries_witness:
  "map_of (REGION_COUNTRY_MAP example_env) ''western europe'' = Some [''germany'', ''france''] \<and>
   (\<exists>st1 st2. highlightRegion example_env ''western europe'' None example_globe = Inr st1 \<and>
      highlightCountry_each example_env [''germany'', ''france''] None example_globe = Inr st2 \<and>
      highlightedCountries st1 = highlightedCountries st2 \<and>
      length (frames st1) = Suc (length (frames example_globe)))"
proof -
  have m: "map_of (REGION_COUNTRY_MAP example_env) ''western europe'' = Some [''germany'', ''france'']"
    by (simp add: example_env_def)
  from highlightRegion_as_countries [OF m, of None example_globe] m show ?thesis
    by blast
qed

subsection \<open>Renderer\<close>

lemma context_run_append: "context_run (xs @ ys) s = context_run ys (context_run xs s)"
  by (induction xs arbitrary: s) simp_all

lemma context_run_drawHighlighted:
  "\<exists>ctx'. context_run (drawHighlighted hl) (ctx, done) =
     (ctx', done @ map (\<lambda>country. Filled [Feature (geojson country)] (Some (color country))) hl)"
proof (induction hl arbitrary: ctx "done")
  case Nil
  show ?case by simp
next
  case (Cons country rest)
  obtain ctx' where "context_run (drawHighlighted rest)
        (ctx\<lparr>currentPath := [Feature (geojson country)], ctx_fillStyle := Some (color country)\<rparr>,
         done @ [Filled [Feature (geojson country)] (Some (color country))]) =
      (ctx', (done @ [Filled [Feature (geojson country)] (Some (color country))]) @
         map (\<lambda>country. Filled [Feature (geojson country)] (Some (color country))) rest)"
    using Cons.IH by blast
  then show ?case by simp
qed

text \<open>
  Claim C7. A call of \<^verbatim>\<open>render()\<close> adds one frame, and what this frame paints is, in
  this order: the clearing of the surface; the stroke of the sphere in the globe's stroke
  style and width, followed by a fill of the sphere only when the globe's fill style is not
  \<^verbatim>\<open>null\<close>; the fill of the land, followed by a stroke of the land only when the land's
  stroke width is greater than 0; one fill and nothing else for each highlighted country, in
  the order of the highlight list, each in the colour of its entry; and last the stroke of
  the border mesh.
\<close>

theorem render_pass_order:
  "length (frames (render e st)) = Suc (length (frames st)) \<and>
   passes ctx (last (frames (render e st))) =
     [Cleared, Stroked [Sphere] (strokeStyle (globe (settings e))) (strokeWidth (globe (settings e)))]
     @ (if fillStyle (globe (settings e)) \<noteq> None
        then [Filled [Sphere] (fillStyle (globe (settings e)))] else [])
     @ [Filled [LandGeoJson] (fillStyle (land (settings e)))]
     @ (if strokeWidth (land (settings e)) > 0
        then [Stroked [LandGeoJson] (strokeStyle (land (settings e))) (strokeWidth (land (settings e)))]
        else [])
     @ map (\<lambda>country. Filled [Feature (geojson country)] (Some (color country)))
         (highlightedCountries st)
     @ [Stroked [BordersGeoJson] (strokeStyle (borders (settings e)))
          (strokeWidth (borders (settings e)))]"
proof -
  define pre where "pre =
     [ClearRect 0 0 (width (holderBoundingBox st)) (height (holderBoundingBox st))]
     @ [BeginPath, Path Sphere,
        SetFillStyle (fillStyle (globe (settings e))),
        SetStrokeStyle (strokeStyle (globe (settings e))),
        SetLineWidth (strokeWidth (globe (settings e))),
        Stroke]
     @ (if fillStyle (globe (settings e)) \<noteq> None then [Fill] else [])
     @ [BeginPath, Path LandGeoJson,
        SetFillStyle (fillStyle (land (settings e))),
        SetStrokeStyle (strokeStyle (land (settings e))),
        SetLineWidth (strokeWidth (land (settings e))),
        Fill]
     @ (if strokeWidth (land (settings e)) > 0 then [Stroke] else [])"
  define post where "post = [BeginPath, Path BordersGeoJson,
        SetStrokeStyle (strokeStyle (borders (settings e))),
        SetLineWidth (strokeWidth (borders (settings e))),
        Stroke]"
  define first_two where "first_two =
     [Cleared, Stroked [Sphere] (strokeStyle (globe (settings e))) (strokeWidth (globe (settings e)))]
     @ (if fillStyle (globe (settings e)) \<noteq> None
        then [Filled [Sphere] (fillStyle (globe (settings e)))] else [])
     @ [Filled [LandGeoJson] (fillStyle (land (settings e)))]
     @ (if strokeWidth (land (settings e)) > 0
        then [Stroked [LandGeoJson] (strokeStyle (land (settings e))) (strokeWidth (land (settings e)))]
        else [])"
  define fills where "fills =
     map (\<lambda>country. Filled [Feature (geojson country)] (Some (color country)))
       (highlightedCountries st)"
  have calls: "render_calls e st = pre @ drawHighlighted (highlightedCountries st) @ post"
    by (simp add: render_calls_def pre_def post_def)
  have "snd (context_run pre (ctx, [])) = first_two"
    unfolding pre_def first_two_def
    by (cases "fillStyle (globe (settings e))"; cases "0 < strokeWidth (land (settings e))") simp_all
  then obtain c1 where pre: "context_run pre (ctx, []) = (c1, first_two)"
    by (metis prod.collapse)
  obtain c2 where mid:
    "context_run (drawHighlighted (highlightedCountries st)) (c1, first_two) = (c2, first_two @ fills)"
    unfolding fills_def using context_run_drawHighlighted by blast
  have "context_run (render_calls e st) (ctx, []) = context_run post (c2, first_two @ fills)"
    by (simp only: calls context_run_append pre mid)
  then have "passes ctx (render_calls e st) =
      first_two @ fills @ [Stroked [BordersGeoJson] (strokeStyle (borders (settings e)))
          (strokeWidth (borders (settings e)))]"
    by (simp add: passes_def post_def)
  then show ?thesis
    by (simp add: first_two_def fills_def render_def)
qed

theorem render_pass_order_witness:
  "passes example_context (last (frames (render example_env
      (example_globe\<lparr>highlightedCountries :=
         [\<lparr>id' = ''FRA'', name = ''france'', color = ''#00F'', geojson = france\<rparr>,
          \<lparr>id' = ''DEU'', name = ''germany'', color = ''#F90'', geojson = germany\<rparr>]\<rparr>)))) =
     [Cleared,
      Stroked [Sphere] ''#CCC'' 1.5,
      Filled [LandGeoJson] (Some ''#CCC''),
      Filled [Feature france] (Some ''#00F''),
      Filled [Feature germany] (Some ''#F90''),
      Stroked [BordersGeoJson] ''#FFF'' 1]"
  using render_pass_order [of example_env
      "example_globe\<lparr>highlightedCountries :=
         [\<lparr>id' = ''FRA'', name = ''france'', color = ''#00F'', geojson = france\<rparr>,
          \<lparr>id' = ''DEU'', name = ''germany'', color = ''#F90'', geojson = germany\<rparr>]\<rparr>"
      example_context]
  by (simp add: example_env_def defaultSettings_def example_globe_def)

subsection \<open>Navigation\<close>

lemma predefined_levels_ge_2:
  "map_of predefinedFillZoomLevels n = Some level \<Longrightarrow> 2 \<le> level"
  by (auto simp: predefinedFillZoomLevels_def split: if_splits)

lemma calculateZoomLevel_predefined:
  assumes "map_of predefinedFillZoomLevels n = Some level"
  shows "calculateZoomLevelForFullscreenCountry lib n g st = level"
  using predefined_levels_ge_2 [OF assms] assms
  by (simp add: calculateZoomLevelForFullscreenCountry_def)

lemma calculateZoomLevel_fitted:
  assumes "map_of predefinedFillZoomLevels n = None"
  shows "calculateZoomLevelForFullscreenCountry lib n g st =
     max 1 (fitExtentScale lib (holderBoundingBox st) (Feature g) / baseProjectionScale st * 0.65)"
  using assms by (simp add: calculateZoomLevelForFullscreenCountry_def max_def)

lemma calculateZoomLevel_ge_1: "1 \<le> calculateZoomLevelForFullscreenCountry lib n g st"
  by (simp add: calculateZoomLevelForFullscreenCountry_def Let_def)

lemma zoomOnCountry_known:
  assumes "getCountryGeoJson e n = Some g"
  shows "zoomOnCountry lib e n z offsetX offsetY st =
     st\<lparr>zoomedCountry := Some n,
        transitions := transitions st @
          [\<lparr>duration = 1250, tween_name = ''centerOnCountry'',
            factory = CenterOnCountry g
              (if z = Auto
               then Number (calculateZoomLevelForFullscreenCountry lib n g st)
               else z) offsetX offsetY\<rparr>]\<rparr>"
  using assms
  by (simp add: zoomOnCountry_def Let_def calculateZoomLevelForFullscreenCountry_def)

lemma center_tween_completes:
  assumes rot: "\<forall>a b. geoInterpolate lib a b 1 = b" and num: "\<forall>a b. interpolate lib a b 1 = b"
    and start: "tween_start lib (CenterOnCountry g (Number zn) offsetX offsetY) s = (s1, f)"
  shows "zoom (tick lib e f 1 s1) = zn"
    and "proj_scale (tick lib e f 1 s1) = baseProjectionScale s * zn"
    and "proj_rotate (tick lib e f 1 s1) =
           (- fst (geoCentroid lib g) - offsetX, - snd (geoCentroid lib g) - offsetY)"
    and "baseProjectionScale (tick lib e f 1 s1) = baseProjectionScale s"
proof -
  obtain x y where c: "geoCentroid lib g = (x, y)"
    by (cases "geoCentroid lib g")
  from start c have s1: "s1 = s\<lparr>zoom := zn\<rparr>"
    and f: "f = CenterTick (proj_rotate s) (- x - offsetX, - y - offsetY)
                  (Some (proj_scale s, baseProjectionScale s * zn))"
    by simp_all
  show "zoom (tick lib e f 1 s1) = zn"
    by (simp add: s1 f render_def Let_def)
  show "proj_scale (tick lib e f 1 s1) = baseProjectionScale s * zn"
    by (simp add: s1 f render_def Let_def num)
  show "proj_rotate (tick lib e f 1 s1) =
          (- fst (geoCentroid lib g) - offsetX, - snd (geoCentroid lib g) - offsetY)"
    by (simp add: s1 f render_def Let_def rot c)
  show "baseProjectionScale (tick lib e f 1 s1) = baseProjectionScale s"
    by (simp add: s1 f render_def Let_def)
qed

lemma zoom_tween_completes:
  assumes num: "\<forall>a b. interpolate lib a b 1 = b"
    and start: "tween_start lib (ZoomTo a b) s = (s1, f)"
  shows "proj_scale (tick lib e f 1 s1) = b" and "zoom (tick lib e f 1 s1) = zoom s"
    and "baseProjectionScale (tick lib e f 1 s1) = baseProjectionScale s"
    and "proj_rotate (tick lib e f 1 s1) = proj_rotate s"
  using assms by (auto simp: render_def)


text \<open>
  Claim C4. For a name that resolves to no country, \<^verbatim>\<open>zoomOnCountry\<close> changes nothing
  but the console: rotation, scale and zoom factor stay, no transition is handed to d3, no
  zoomed country is recorded, nothing is rendered, and one line is logged.
\<close>

theorem zoomOnCountry_unknown_name:
  assumes "getCountryGeoJson e countryName = None"
  shows "zoomOnCountry lib e countryName z offsetX offsetY st =
           st\<lparr>console := console st @
             [''No iso code was found for '' @ countryName @ '' so cannot zoom on it.'']\<rparr>"
  using assms by (simp add: zoomOnCountry_def)


theorem zoomOnCountry_unknown_name_witness:
  "getCountryGeoJson example_env ''atlantis'' = None \<and>
   zoomOnCountry example_d3 example_env ''atlantis'' (Number 3) 0 0 example_globe =
     example_globe\<lparr>console := [''No iso code was found for atlantis so cannot zoom on it.'']\<rparr>"
proof -
  have u: "getCountryGeoJson example_env ''atlantis'' = None"
    by (simp add: getCountryGeoJson_def example_defs lower_defs)
  from zoomOnCountry_unknown_name [OF u, of example_d3 "Number 3" 0 0 example_globe] u
  show ?thesis by (simp add: example_globe_def)
qed

text \<open>
  \<^verbatim>\<open>zoomOnCountry\<close> with \<^verbatim>\<open>zoom = 'auto'\<close>, for a name that resolves and a base scale
  other than 0. The table of predefined levels is looked up with the name as the caller
  wrote it: the factor handed to the tween is the table value when that string is a key of
  the table, and otherwise the fitted scale of the country divided by the base scale, times
  0.65, raised to 1 when it is below 1.
\<close>

lemma auto_zoom_level_by_argument:
  assumes found: "getCountryGeoJson e countryName = Some c"
    and base: "baseProjectionScale st \<noteq> 0"
  shows "let zoomlevel =
           (case map_of predefinedFillZoomLevels countryName of
              Some level \<Rightarrow> level
            | None \<Rightarrow> max 1 (fitExtentScale lib (holderBoundingBox st) (Feature c) /
                              baseProjectionScale st * 0.65))
         in transitions (zoomOnCountry lib e countryName Auto offsetX offsetY st) =
              transitions st @
                [\<lparr>duration = 1250, tween_name = ''centerOnCountry'',
                  factory = CenterOnCountry c (Number zoomlevel) offsetX offsetY\<rparr>] \<and>
            1 \<le> zoomlevel \<and>
            zoom (fst (tween_start lib (CenterOnCountry c (Number zoomlevel) offsetX offsetY) s))
              = zoomlevel"
proof -
  define zoomlevel where "zoomlevel =
           (case map_of predefinedFillZoomLevels countryName of
              Some level \<Rightarrow> level
            | None \<Rightarrow> max 1 (fitExtentScale lib (holderBoundingBox st) (Feature c) /
                              baseProjectionScale st * 0.65))"
  have calc: "calculateZoomLevelForFullscreenCountry lib countryName c st = zoomlevel"
    unfolding zoomlevel_def
    by (cases "map_of predefinedFillZoomLevels countryName")
      (simp_all add: calculateZoomLevel_fitted calculateZoomLevel_predefined)
  have "transitions (zoomOnCountry lib e countryName Auto offsetX offsetY st) =
              transitions st @
                [\<lparr>duration = 1250, tween_name = ''centerOnCountry'',
                  factory = CenterOnCountry c (Number zoomlevel) offsetX offsetY\<rparr>]"
    by (simp add: zoomOnCountry_known [OF found] calc)
  moreover have "1 \<le> zoomlevel"
    using calculateZoomLevel_ge_1 [of lib countryName c st] by (simp add: calc)
  moreover have
    "zoom (fst (tween_start lib (CenterOnCountry c (Number zoomlevel) offsetX offsetY) s)) = zoomlevel"
    by (simp add: split_def Let_def)
  ultimately show ?thesis
    unfolding zoomlevel_def [symmetric] by (simp add: Let_def)
qed

text \<open>
  Claim C8. With \<^verbatim>\<open>zoom = 'auto'\<close>, a country of the table of predefined levels should get
  exactly its table value. The code, run on the example globe: \<open>Germany\<close> with a capital
  letter resolves to the feature of Germany, as every lookup of a country ignores letter
  case, and the table holds 14 for \<open>germany\<close>; but the table is looked up with the
  string as passed, which is not a key, so the tween gets the fitted value
  \<open>2000 / 250 * 0.65 = 5.2\<close>. Only the lower-case spelling gets 14.
\<close>

theorem auto_zoom_capitalised_name:
  "getCountryGeoJson example_env ''Germany'' = Some germany \<and>
   map_of predefinedFillZoomLevels (toLowerCase ''Germany'') = Some 14 \<and>
   factory (last (transitions
      (zoomOnCountry example_d3 example_env ''Germany'' Auto 0 0 example_globe))) =
     CenterOnCountry germany (Number 5.2) 0 0 \<and>
   factory (last (transitions
      (zoomOnCountry example_d3 example_env ''germany'' Auto 0 0 example_globe))) =
     CenterOnCountry germany (Number 14) 0 0"
proof -
  have upper: "getCountryGeoJson example_env ''Germany'' = Some germany"
    by (simp add: getCountryGeoJson_def example_defs lower_defs)
  have lower: "getCountryGeoJson example_env ''germany'' = Some germany"
    by (simp add: getCountryGeoJson_def example_defs lower_defs)
  have key: "map_of predefinedFillZoomLevels (toLowerCase ''Germany'') = Some 14"
    by (simp add: predefinedFillZoomLevels_def lower_defs)
  have raw: "factory (last (transitions
      (zoomOnCountry example_d3 example_env ''Germany'' Auto 0 0 example_globe))) =
     CenterOnCountry germany (Number 5.2) 0 0"
    by (simp add: zoomOnCountry_def upper calculateZoomLevelForFullscreenCountry_def
        predefinedFillZoomLevels_def example_d3_def example_globe_def)
  have low: "factory (last (transitions
      (zoomOnCountry example_d3 example_env ''germany'' Auto 0 0 example_globe))) =
     CenterOnCountry germany (Number 14) 0 0"
    by (simp add: zoomOnCountry_def lower calculateZoomLevelForFullscreenCountry_def
        predefinedFillZoomLevels_def example_d3_def example_globe_def)
  from upper key raw low show ?thesis by blast
qed

text \<open>
  Claim C9. \<^verbatim>\<open>zoomOnCountry\<close> with a numeric zoom factor \<open>z\<close>, for a name that resolves
  to the country \<open>c\<close>, with interpolators that reach their target at \<open>t = 1\<close>: whatever
  the state \<open>s\<close> in which d3 starts the transition, after the tick with \<open>t = 1\<close> the
  projection scale is the base scale times \<open>z\<close> and the rotation is the negated centroid
  of \<open>c\<close> minus the offsets.
\<close>

theorem zoomOnCountry_completed:
  assumes found: "getCountryGeoJson e countryName = Some c"
    and rot: "\<forall>a b. geoInterpolate lib a b 1 = b"
    and num: "\<forall>a b. interpolate lib a b 1 = b"
    and start: "tween_start lib
        (factory (last (transitions (zoomOnCountry lib e countryName (Number z) offsetX offsetY st)))) s
        = (s1, f)"
  shows "proj_scale (tick lib e f 1 s1) = baseProjectionScale s * z \<and>
         proj_rotate (tick lib e f 1 s1) =
           (- fst (geoCentroid lib c) - offsetX, - snd (geoCentroid lib c) - offsetY)"
proof -
  from start have "tween_start lib (CenterOnCountry c (Number z) offsetX offsetY) s = (s1, f)"
    by (simp add: zoomOnCountry_known [OF found])
  from center_tween_completes(2,3) [OF rot num this] show ?thesis
    by simp
qed



theorem zoomOnCountry_completed_witness:
  "getCountryGeoJson example_env ''germany'' = Some germany \<and>
   (\<forall>a b. geoInterpolate example_d3 a b 1 = b) \<and>
   (\<forall>a b. interpolate example_d3 a b 1 = b) \<and>
   tween_start example_d3
     (factory (last (transitions
        (zoomOnCountry example_d3 example_env ''germany'' (Number 14) 0 0 example_globe))))
     example_globe =
     (example_globe\<lparr>zoom := 14\<rparr>, CenterTick (0, 0) (- 10, - 51) (Some (250, 3500))) \<and>
   proj_scale (tick example_d3 example_env (CenterTick (0, 0) (- 10, - 51) (Some (250, 3500))) 1
      (example_globe\<lparr>zoom := 14\<rparr>)) = baseProjectionScale example_globe * 14 \<and>
   proj_rotate (tick example_d3 example_env (CenterTick (0, 0) (- 10, - 51) (Some (250, 3500))) 1
      (example_globe\<lparr>zoom := 14\<rparr>)) =
     (- fst (geoCentroid example_d3 germany) - 0, - snd (geoCentroid example_d3 germany) - 0)"
proof -
  have found: "getCountryGeoJson example_env ''germany'' = Some germany"
    by (simp add: getCountryGeoJson_def example_defs lower_defs)
  have rot: "\<forall>a b. geoInterpolate example_d3 a b 1 = b"
    by (simp add: example_d3_def)
  have num: "\<forall>a b. interpolate example_d3 a b 1 = b"
    by (simp add: example_d3_def)
  have start: "tween_start example_d3
     (factory (last (transitions
        (zoomOnCountry example_d3 example_env ''germany'' (Number 14) 0 0 example_globe))))
     example_globe =
     (example_globe\<lparr>zoom := 14\<rparr>, CenterTick (0, 0) (- 10, - 51) (Some (250, 3500)))"
    by (simp add: zoomOnCountry_def found) (simp add: example_defs)
  from zoomOnCountry_completed [OF found rot num start] found rot num start
  show ?thesis by blast
qed

text \<open>
  Claim C5. The stored zoom factor should never be below 1, every operation that sets it
  clamping smaller values to 1. The code, run on the example globe (zoom factor 1, base
  scale 250): \<^verbatim>\<open>setZoom(0.5)\<close> stores 0.5 and hands d3 a tween from scale 250 to
  \<open>250 * 0.5 = 125\<close>, and the tween of \<^verbatim>\<open>zoomOnCountry("germany", 0.5)\<close> stores 0.5 when
  it starts. Only the auto-zoom computation clamps: with a fitted scale of 2000 on a base
  scale of 4000 it returns 1, not \<open>0.5 * 0.65\<close>.
\<close>

theorem numeric_zoom_below_one_not_clamped:
  "zoom (setZoom (Number (1 / 2)) example_globe) = 1 / 2 \<and>
   \<not> 1 \<le> zoom (setZoom (Number (1 / 2)) example_globe) \<and>
   factory (last (transitions (setZoom (Number (1 / 2)) example_globe))) = ZoomTo 250 125 \<and>
   \<not> 1 \<le> zoom (fst (tween_start example_d3
        (factory (last (transitions
           (zoomOnCountry example_d3 example_env ''germany'' (Number (1 / 2)) 0 0 example_globe))))
        example_globe)) \<and>
   calculateZoomLevelForFullscreenCountry example_d3 ''france'' france
     (example_globe\<lparr>baseProjectionScale := 4000\<rparr>) = 1"
proof -
  have found: "getCountryGeoJson example_env ''germany'' = Some germany"
    by (simp add: getCountryGeoJson_def example_defs lower_defs)
  have set_zoom: "setZoom (Number (1 / 2)) example_globe =
      example_globe\<lparr>zoom := 1 / 2,
        transitions := [\<lparr>duration = 1250, tween_name = ''zoom'', factory = ZoomTo 250 125\<rparr>]\<rparr>"
    by (simp add: setZoom_def example_globe_def)
  have country: "zoom (fst (tween_start example_d3
        (factory (last (transitions
           (zoomOnCountry example_d3 example_env ''germany'' (Number (1 / 2)) 0 0 example_globe))))
        example_globe)) = 1 / 2"
    by (simp add: zoomOnCountry_def found split_def Let_def)
  have auto_path: "calculateZoomLevelForFullscreenCountry example_d3 ''france'' france
     (example_globe\<lparr>baseProjectionScale := 4000\<rparr>) = 1"
    by (simp add: calculateZoomLevelForFullscreenCountry_def predefinedFillZoomLevels_def
        example_d3_def example_globe_def)
  show ?thesis
    by (simp add: set_zoom country auto_path)
qed

subsection \<open>A new navigation during an animation\<close>










end
